theory Spec2Isabelle
  imports Complex_Main
begin

section \<open>Numbers and strings of the host language\<close>

text \<open>
  The program is TypeScript. Its numbers are IEEE doubles; they are modelled by exact
  reals, so rounding error is not part of the model. The one operation of the ranking
  pipeline that can leave the reals is a quotient whose divisor may be zero; its result
  is a \<open>jsnum\<close>, which adds the two infinities and NaN.
\<close>

datatype jsnum = Num real | PosInf | NegInf | NaN

definition js_div :: "real \<Rightarrow> real \<Rightarrow> jsnum" where
  "js_div x y =
     (if y \<noteq> 0 then Num (x / y)
      else if x = 0 then NaN
      else if 0 < x then PosInf else NegInf)"

fun js_sub :: "jsnum \<Rightarrow> jsnum \<Rightarrow> jsnum" where
  "js_sub (Num a) (Num b) = Num (a - b)"
| "js_sub NaN _ = NaN"
| "js_sub _ NaN = NaN"
| "js_sub PosInf PosInf = NaN"
| "js_sub NegInf NegInf = NaN"
| "js_sub PosInf _ = PosInf"
| "js_sub NegInf _ = NegInf"
| "js_sub (Num a) PosInf = NegInf"
| "js_sub (Num a) NegInf = PosInf"

text \<open>The comparisons \<open>a >= b\<close> and \<open>a < b\<close> of the language: false as soon as one side is NaN.\<close>

fun js_ge :: "jsnum \<Rightarrow> jsnum \<Rightarrow> bool" where
  "js_ge NaN _ = False"
| "js_ge _ NaN = False"
| "js_ge (Num a) (Num b) = (b \<le> a)"
| "js_ge PosInf _ = True"
| "js_ge _ NegInf = True"
| "js_ge NegInf _ = False"
| "js_ge (Num a) PosInf = False"



text \<open>\<open>Math.round\<close>: to the nearest integer, halves upwards.\<close>

definition Math_round :: "real \<Rightarrow> real" where
  "Math_round x = of_int \<lfloor>x + 1 / 2\<rfloor>"

definition Math_ceil :: "real \<Rightarrow> real" where
  "Math_ceil x = of_int \<lceil>x\<rceil>"

text \<open>\<open>Math.atan2 y x\<close>, the angle of the point \<open>(x, y)\<close>.\<close>

definition Math_atan2 :: "real \<Rightarrow> real \<Rightarrow> real" where
  "Math_atan2 y x =
     (if 0 < x then arctan (y / x)
      else if x < 0 then (if 0 \<le> y then arctan (y / x) + pi else arctan (y / x) - pi)
      else if 0 < y then pi / 2
      else if y < 0 then - (pi / 2)
      else 0)"

text \<open>
  Strings are byte lists, so the string functions are those of the language on ASCII
  text: \<open>toLowerCase\<close> maps \<open>A\<close>..\<open>Z\<close>, \<open>trim\<close> removes blanks, tabs and line breaks at
  both ends, and \<open>s.split(',')[0]\<close> is the text before the first comma.
\<close>

definition lower_char :: "char \<Rightarrow> char" where
  "lower_char c =
     (case map_of (zip ''ABCDEFGHIJKLMNOPQRSTUVWXYZ'' ''abcdefghijklmnopqrstuvwxyz'') c of
        None \<Rightarrow> c
      | Some l \<Rightarrow> l)"

definition toLowerCase :: "string \<Rightarrow> string" where
  "toLowerCase s = map lower_char s"

definition is_space :: "char \<Rightarrow> bool" where
  "is_space c = (c \<in> set [CHR 0x09, CHR 0x0A, CHR 0x0B, CHR 0x0C, CHR 0x0D, CHR '' ''])"

definition trim :: "string \<Rightarrow> string" where
  "trim s = rev (dropWhile is_space (rev (dropWhile is_space s)))"

definition split_comma_first :: "string \<Rightarrow> string" where
  "split_comma_first s = takeWhile (\<lambda>c. c \<noteq> CHR '','') s"

text \<open>\<open>a || b\<close> on strings: the empty string is falsy.\<close>

definition str_or :: "string \<Rightarrow> string \<Rightarrow> string" where
  "str_or a b = (if a = [] then b else a)"

text \<open>\<open>a || b\<close> on numbers: zero is falsy.\<close>

definition num_or :: "real \<Rightarrow> real \<Rightarrow> real" where
  "num_or a b = (if a = 0 then b else a)"


section \<open>distance.util.ts\<close>

record Coordinates =
  latitude :: real
  longitude :: real

definition toRadians :: "real \<Rightarrow> real" where
  "toRadians degrees = degrees * (pi / 180)"

definition haversineDistance :: "Coordinates \<Rightarrow> Coordinates \<Rightarrow> real" where
  "haversineDistance coord1 coord2 =
     (let R = 6371;
          lat1Rad = toRadians (latitude coord1);
          lat2Rad = toRadians (latitude coord2);
          deltaLatRad = toRadians (latitude coord2 - latitude coord1);
          deltaLonRad = toRadians (longitude coord2 - longitude coord1);
          a = sin (deltaLatRad / 2) * sin (deltaLatRad / 2) +
              cos lat1Rad * cos lat2Rad * sin (deltaLonRad / 2) * sin (deltaLonRad / 2);
          c = 2 * Math_atan2 (sqrt a) (sqrt (1 - a))
      in R * c)"

text \<open>
  The table of known places. A lookup is a lookup of the table's own keys; names the
  host language would find on the prototype of every object are not modelled.
\<close>

definition LOCATION_COORDINATES :: "string \<rightharpoonup> Coordinates" where
  "LOCATION_COORDINATES = map_of
     [(''jakarta'', \<lparr>latitude = - 62088 / 10000, longitude = 1068456 / 10000\<rparr>),
      (''bandung'', \<lparr>latitude = - 69175 / 10000, longitude = 1076191 / 10000\<rparr>),
      (''yogyakarta'', \<lparr>latitude = - 77956 / 10000, longitude = 1103695 / 10000\<rparr>),
      (''surabaya'', \<lparr>latitude = - 72575 / 10000, longitude = 1127521 / 10000\<rparr>),
      (''bali'', \<lparr>latitude = - 84095 / 10000, longitude = 1151889 / 10000\<rparr>),
      (''lombok'', \<lparr>latitude = - 85069 / 10000, longitude = 1161944 / 10000\<rparr>),
      (''malang'', \<lparr>latitude = - 79666 / 10000, longitude = 1126326 / 10000\<rparr>),
      (''magelang'', \<lparr>latitude = - 74698 / 10000, longitude = 1102182 / 10000\<rparr>)]"

definition calculateTransportDistance :: "string \<Rightarrow> string \<Rightarrow> real" where
  "calculateTransportDistance userLocation mountainLocation =
     (case LOCATION_COORDINATES (toLowerCase userLocation) of
        None \<Rightarrow> 300
      | Some userCoords \<Rightarrow>
          (case LOCATION_COORDINATES (toLowerCase mountainLocation) of
             None \<Rightarrow> 300
           | Some mountainCoords \<Rightarrow> haversineDistance userCoords mountainCoords))"


section \<open>cost.service.ts\<close>

datatype BudgetLevel = budget | standard | premium

record CostBreakdown =
  transportation :: real
  permits :: real
  guide :: real
  accommodation :: real
  meals :: real
  equipment :: real
  miscellaneous :: real
  total :: real

record CostCalculationInput =
  userLocation :: string
  mountainLocation :: string
  routeDifficulty :: string
  duration :: real
  groupSize :: real
  needsGuide :: bool
  needsEquipment :: bool
  budgetLevel :: BudgetLevel

definition calculateTransportationCost :: "string \<Rightarrow> string \<Rightarrow> real \<Rightarrow> real" where
  "calculateTransportationCost userLoc mountainLoc grpSize =
     (let distance = calculateTransportDistance userLoc mountainLoc;
          motorCostPerPerson = (distance / 30) * 10000;
          publicTransportBase = 50000;
          publicTransportPerKm = 500;
          publicTransportCost = publicTransportBase + (publicTransportPerKm * distance);
          costPerPerson = min motorCostPerPerson publicTransportCost
      in if grpSize > 4
         then (let carRentalCost = distance * 2000 + 300000
               in min (costPerPerson * grpSize) carRentalCost)
         else costPerPerson * grpSize)"

definition permitRates :: "string \<rightharpoonup> real" where
  "permitRates = map_of
     [(''lombok'', 150000), (''malang'', 200000), (''magelang'', 100000), (''default'', 120000)]"

definition difficultyMultiplier :: "string \<Rightarrow> real" where
  "difficultyMultiplier d =
     (case map_of [(''Easy'', 1), (''Moderate'', 12 / 10), (''Hard'', 15 / 10), (''Expert'', 2)] d of
        None \<Rightarrow> 1
      | Some m \<Rightarrow> num_or m 1)"

definition calculatePermitCost :: "string \<Rightarrow> string \<Rightarrow> real \<Rightarrow> real" where
  "calculatePermitCost mountainLoc routeDiff grpSize =
     (let basePermit = (case permitRates mountainLoc of None \<Rightarrow> 120000 | Some r \<Rightarrow> num_or r 120000)
      in basePermit * grpSize * difficultyMultiplier routeDiff)"

definition baseDailyRate :: "string \<Rightarrow> real" where
  "baseDailyRate d =
     (case map_of [(''Easy'', 200000), (''Moderate'', 300000), (''Hard'', 400000), (''Expert'', 500000)] d of
        None \<Rightarrow> 300000
      | Some r \<Rightarrow> num_or r 300000)"

definition calculateGuideCost :: "string \<Rightarrow> real \<Rightarrow> real \<Rightarrow> bool \<Rightarrow> real" where
  "calculateGuideCost routeDiff dur grpSize needsG =
     (if \<not> needsG then 0
      else (let guidesNeeded = Math_ceil (grpSize / 4)
            in baseDailyRate routeDiff * dur * guidesNeeded))"

definition ratesPerPersonPerNight :: "BudgetLevel \<Rightarrow> real" where
  "ratesPerPersonPerNight b = (case b of budget \<Rightarrow> 75000 | standard \<Rightarrow> 150000 | premium \<Rightarrow> 300000)"

definition calculateAccommodationCost :: "real \<Rightarrow> real \<Rightarrow> BudgetLevel \<Rightarrow> real" where
  "calculateAccommodationCost dur grpSize b =
     (let nightsNeeded = max 0 (dur - 1)
      in ratesPerPersonPerNight b * grpSize * nightsNeeded)"

definition mealRatesPerPersonPerDay :: "BudgetLevel \<Rightarrow> real" where
  "mealRatesPerPersonPerDay b = (case b of budget \<Rightarrow> 50000 | standard \<Rightarrow> 75000 | premium \<Rightarrow> 125000)"

definition calculateMealCost :: "real \<Rightarrow> real \<Rightarrow> BudgetLevel \<Rightarrow> real" where
  "calculateMealCost dur grpSize b = mealRatesPerPersonPerDay b * grpSize * dur"

definition baseEquipmentCostPerPerson :: "string \<Rightarrow> real" where
  "baseEquipmentCostPerPerson d =
     (case map_of [(''Easy'', 100000), (''Moderate'', 150000), (''Hard'', 200000), (''Expert'', 300000)] d of
        None \<Rightarrow> 150000
      | Some r \<Rightarrow> num_or r 150000)"

definition calculateEquipmentCost :: "bool \<Rightarrow> real \<Rightarrow> real \<Rightarrow> string \<Rightarrow> real" where
  "calculateEquipmentCost needsE dur grpSize routeDiff =
     (if \<not> needsE then 0
      else baseEquipmentCostPerPerson routeDiff * grpSize * dur)"

definition calculateTripCost :: "CostCalculationInput \<Rightarrow> CostBreakdown" where
  "calculateTripCost input =
     (let transportation' = calculateTransportationCost (userLocation input) (mountainLocation input)
                              (groupSize input);
          permits' = calculatePermitCost (mountainLocation input) (routeDifficulty input)
                              (groupSize input);
          guide' = calculateGuideCost (routeDifficulty input) (duration input) (groupSize input)
                              (needsGuide input);
          accommodation' = calculateAccommodationCost (duration input) (groupSize input)
                              (budgetLevel input);
          meals' = calculateMealCost (duration input) (groupSize input) (budgetLevel input);
          equipment' = calculateEquipmentCost (needsEquipment input) (duration input)
                              (groupSize input) (routeDifficulty input);
          miscellaneous' = (transportation' + permits' + guide' + accommodation' + meals' +
                              equipment') * (1 / 10);
          total' = transportation' + permits' + guide' + accommodation' + meals' + equipment' +
                              miscellaneous'
      in \<lparr>transportation = Math_round transportation',
          permits = Math_round permits',
          guide = Math_round guide',
          accommodation = Math_round accommodation',
          meals = Math_round meals',
          equipment = Math_round equipment',
          miscellaneous = Math_round miscellaneous',
          total = Math_round total'\<rparr>)"

definition budgetMap :: "string \<rightharpoonup> real \<times> real" where
  "budgetMap = map_of
     [(''under_500k'', (0, 500000)), (''500k_1m'', (500000, 1000000)),
      (''1m_2m'', (1000000, 2000000)), (''2m_5m'', (2000000, 5000000)),
      (''above_5m'', (5000000, 10000000))]"

definition parseBudgetRange :: "string \<Rightarrow> real \<times> real" where
  "parseBudgetRange budgetRange = (case budgetMap budgetRange of None \<Rightarrow> (0, 2000000) | Some r \<Rightarrow> r)"


section \<open>topsis.service.ts: data\<close>

text \<open>
  A route as the database returns it, with its mountain and its criterion values, each
  value with its criterion and the criterion's factor (\<open>criterion.factor.name\<close> is
  \<open>factor_name\<close>). The stages of the analysis add fields to the criterion values and to
  the routes; every stage has its own record type, an extension of the one before.
\<close>

record Mountain =
  mountain_name :: string
  mountain_location :: string

record Criterion =
  name :: string
  isBenefit :: bool
  factor_name :: string
  weightInFactor :: real

record CriterionValue =
  criterionId :: string
  criterion :: Criterion
  valueDecimal :: real

record NormalizedValue = CriterionValue +
  normalizedValue :: real

record WeightedValue = NormalizedValue +
  weight :: real
  weightedValue :: real

record 'cv Route =
  route_id :: string
  route_name :: string
  mountain :: Mountain
  difficulty :: string
  route_distance :: real
  route_duration :: int
  criterionValues :: "'cv list"

record 'cv ScoredRoute = "'cv Route" +
  distanceToPositive :: jsnum
  distanceToNegative :: jsnum
  topsisScore :: jsnum

record 'cv RankedRoute = "'cv ScoredRoute" +
  rank :: nat

record FactorWeight =
  fw_factor_name :: string
  fw_weight :: real

record UserPreferences =
  experience_level :: string
  fitness_level :: real
  budget_range :: string
  time_commitment :: string
  location :: string
  group_size :: real
  interests :: "string list"
  concerns :: "string list option"

text \<open>\<open>{...route, criterionValues: cvs}\<close>\<close>

definition with_criterionValues :: "'a Route \<Rightarrow> 'b list \<Rightarrow> 'b Route" where
  "with_criterionValues r cvs =
     \<lparr>route_id = route_id r, route_name = route_name r, mountain = mountain r,
      difficulty = difficulty r, route_distance = route_distance r,
      route_duration = route_duration r, criterionValues = cvs\<rparr>"

text \<open>The key of a criterion value, \<open>cv.criterionId || cv.criterion.name\<close>.\<close>

definition critKey :: "'a CriterionValue_scheme \<Rightarrow> string" where
  "critKey cv = str_or (criterionId cv) (name (criterion cv))"

definition findCriterion :: "string \<Rightarrow> ('s CriterionValue_scheme) list \<Rightarrow> 's CriterionValue_scheme option" where
  "findCriterion criterionKey cvs = find (\<lambda>cv. critKey cv = criterionKey) cvs"


section \<open>topsis.service.ts: calculateUserWeights\<close>

text \<open>
  The weights object has the three keys \<open>Physical Demand\<close>, \<open>Logistics & Cost\<close> and
  \<open>Experience Quality\<close>, in this order; it is a record of three numbers, and
  \<open>userWeights[factorName]\<close> is \<open>weightOf\<close>.
\<close>

record UserWeights =
  physicalDemand :: real
  logisticsCost :: real
  experienceQuality :: real

definition weightOf :: "UserWeights \<Rightarrow> string \<rightharpoonup> real" where
  "weightOf w factorName =
     (if factorName = ''Physical Demand'' then Some (physicalDemand w)
      else if factorName = ''Logistics & Cost'' then Some (logisticsCost w)
      else if factorName = ''Experience Quality'' then Some (experienceQuality w)
      else None)"

definition initialWeights :: UserWeights where
  "initialWeights = \<lparr>physicalDemand = 33 / 100, logisticsCost = 33 / 100, experienceQuality = 34 / 100\<rparr>"

definition adjustExperience :: "UserPreferences \<Rightarrow> UserWeights \<Rightarrow> UserWeights" where
  "adjustExperience preferences w =
     (if experience_level preferences = ''beginner''
      then \<lparr>physicalDemand = 2 / 10, logisticsCost = 5 / 10, experienceQuality = 3 / 10\<rparr>
      else if experience_level preferences = ''expert''
      then \<lparr>physicalDemand = 5 / 10, logisticsCost = 2 / 10, experienceQuality = 3 / 10\<rparr>
      else w)"

definition adjustBudget :: "UserPreferences \<Rightarrow> UserWeights \<Rightarrow> UserWeights" where
  "adjustBudget preferences w =
     (if budget_range preferences = ''under_500k'' \<or> budget_range preferences = ''500k_1m''
      then \<lparr>physicalDemand = physicalDemand w - 5 / 100,
            logisticsCost = logisticsCost w + 1 / 10,
            experienceQuality = experienceQuality w - 5 / 100\<rparr>
      else w)"

definition adjustPhysicalChallenge :: "UserPreferences \<Rightarrow> UserWeights \<Rightarrow> UserWeights" where
  "adjustPhysicalChallenge preferences w =
     (if ''physical_challenge'' \<in> set (interests preferences)
      then w\<lparr>physicalDemand := physicalDemand w + 1 / 10,
             experienceQuality := experienceQuality w - 1 / 10\<rparr>
      else w)"

definition adjustScenicViews :: "UserPreferences \<Rightarrow> UserWeights \<Rightarrow> UserWeights" where
  "adjustScenicViews preferences w =
     (if ''scenic_views'' \<in> set (interests preferences)
      then w\<lparr>experienceQuality := experienceQuality w + 1 / 10,
             physicalDemand := physicalDemand w - 1 / 10\<rparr>
      else w)"

text \<open>The weights before the final normalisation.\<close>

definition adjustedWeights :: "UserPreferences \<Rightarrow> UserWeights" where
  "adjustedWeights preferences =
     adjustScenicViews preferences
       (adjustPhysicalChallenge preferences
         (adjustBudget preferences
           (adjustExperience preferences initialWeights)))"

definition weightsTotal :: "UserWeights \<Rightarrow> real" where
  "weightsTotal w = foldl (\<lambda>sum x. sum + x) 0 [physicalDemand w, logisticsCost w, experienceQuality w]"

definition normalizeWeights :: "UserWeights \<Rightarrow> UserWeights" where
  "normalizeWeights w =
     (let total = weightsTotal w
      in \<lparr>physicalDemand = physicalDemand w / total,
          logisticsCost = logisticsCost w / total,
          experienceQuality = experienceQuality w / total\<rparr>)"

definition calculateUserWeights :: "UserPreferences \<Rightarrow> UserWeights" where
  "calculateUserWeights preferences = normalizeWeights (adjustedWeights preferences)"


section \<open>topsis.service.ts: addDynamicCriteria\<close>

definition mountainKey :: "'a Route \<Rightarrow> string" where
  "mountainKey route = trim (split_comma_first (toLowerCase (mountain_location (mountain route))))"

definition costInput :: "UserPreferences \<Rightarrow> 'a Route \<Rightarrow> CostCalculationInput" where
  "costInput preferences route =
     \<lparr>userLocation = str_or (location preferences) ''jakarta'',
      mountainLocation = mountainKey route,
      routeDifficulty = difficulty route,
      duration = num_or (Math_ceil (real_of_int (route_duration route) / 24)) 1,
      groupSize = num_or (group_size preferences) 2,
      needsGuide = (experience_level preferences = ''beginner''),
      needsEquipment = (case concerns preferences of None \<Rightarrow> False
                        | Some cs \<Rightarrow> ''equipment'' \<in> set cs),
      budgetLevel = (if budget_range preferences = ''under_500k'' then budget
                     else if budget_range preferences = ''above_5m'' then premium
                     else standard)\<rparr>"

definition costCriterion :: "UserPreferences \<Rightarrow> 'a Route \<Rightarrow> CriterionValue" where
  "costCriterion preferences route =
     \<lparr>criterionId = ''calculated_cost'',
      criterion = \<lparr>name = ''Total Trip Cost'', isBenefit = False,
                   factor_name = ''Logistics & Cost'', weightInFactor = 6 / 10\<rparr>,
      valueDecimal = total (calculateTripCost (costInput preferences route))\<rparr>"

definition accessibilityCriterion :: "UserPreferences \<Rightarrow> 'a Route \<Rightarrow> CriterionValue" where
  "accessibilityCriterion preferences route =
     (let distance = calculateTransportDistance (str_or (location preferences) ''jakarta'')
                       (mountainKey route);
          accessibilityScore = max 1 (6 - (distance / 100))
      in \<lparr>criterionId = ''accessibility_score'',
          criterion = \<lparr>name = ''Accessibility Score'', isBenefit = True,
                       factor_name = ''Logistics & Cost'', weightInFactor = 4 / 10\<rparr>,
          valueDecimal = accessibilityScore\<rparr>)"

definition addDynamicCriteria :: "CriterionValue Route list \<Rightarrow> UserPreferences \<Rightarrow> CriterionValue Route list" where
  "addDynamicCriteria routes preferences =
     map (\<lambda>route. with_criterionValues route
            (criterionValues route @
               [costCriterion preferences route, accessibilityCriterion preferences route]))
         routes"


section \<open>topsis.service.ts: normalizeMatrix and applyWeights\<close>

text \<open>The keys of all criterion values of all routes, in the order of first appearance.\<close>

definition addKey :: "string list \<Rightarrow> string \<Rightarrow> string list" where
  "addKey keys k = (if k \<in> set keys then keys else keys @ [k])"

definition allCriteria :: "('s CriterionValue_scheme) Route list \<Rightarrow> string list" where
  "allCriteria routes =
     foldl (\<lambda>keys route. foldl (\<lambda>keys cv. addKey keys (critKey cv)) keys (criterionValues route))
       [] routes"

text \<open>
  The column of a criterion: for every route the value of the first criterion value
  with that key, and 0 for a route that has none.
\<close>

definition columnValues :: "CriterionValue Route list \<Rightarrow> string \<Rightarrow> real list" where
  "columnValues routes criterionKey =
     map (\<lambda>route. case findCriterion criterionKey (criterionValues route) of
                     Some criterionValue \<Rightarrow> valueDecimal criterionValue
                   | None \<Rightarrow> 0)
         routes"

definition sumOfSquares :: "real list \<Rightarrow> real" where
  "sumOfSquares vs = foldl (\<lambda>sum v. sum + (v * v)) 0 vs"

definition normalizationFactors :: "CriterionValue Route list \<Rightarrow> string \<rightharpoonup> real" where
  "normalizationFactors routes criterionKey =
     (if criterionKey \<in> set (allCriteria routes)
      then Some (sqrt (sumOfSquares (columnValues routes criterionKey)))
      else None)"

text \<open>
  The division is guarded: it takes place only where the factor is positive. A key
  without a factor compares as not positive.
\<close>

definition normalizeValue :: "(string \<rightharpoonup> real) \<Rightarrow> CriterionValue \<Rightarrow> NormalizedValue" where
  "normalizeValue factors cv =
     (let criterionKey = critKey cv;
          originalValue = valueDecimal cv;
          normalizedValue' =
            (case factors criterionKey of
               Some f \<Rightarrow> if f > 0 then originalValue / f else 0
             | None \<Rightarrow> 0)
      in \<lparr>criterionId = criterionId cv, criterion = criterion cv, valueDecimal = valueDecimal cv,
          normalizedValue = normalizedValue'\<rparr>)"

definition normalizeMatrix :: "CriterionValue Route list \<Rightarrow> NormalizedValue Route list" where
  "normalizeMatrix routes =
     map (\<lambda>route. with_criterionValues route
            (map (normalizeValue (normalizationFactors routes)) (criterionValues route)))
         routes"

text \<open>
  A stored factor weight is a decimal object, which is truthy whatever its value, so
  the default 0.33 applies only when no weight is stored for the factor. The user
  weight is a number: the default also replaces a zero.
\<close>

definition totalWeightOf :: "FactorWeight list \<Rightarrow> UserWeights \<Rightarrow> Criterion \<Rightarrow> real" where
  "totalWeightOf factorWeights userWeights c =
     (let factorName = factor_name c;
          factorWeight = (case find (\<lambda>fw. fw_factor_name fw = factorName) factorWeights of
                            Some fw \<Rightarrow> fw_weight fw
                          | None \<Rightarrow> 33 / 100);
          userWeight = (case weightOf userWeights factorName of
                          Some w \<Rightarrow> num_or w (33 / 100)
                        | None \<Rightarrow> 33 / 100);
          criterionWeight = weightInFactor c
      in factorWeight * userWeight * criterionWeight)"

definition weightValue :: "FactorWeight list \<Rightarrow> UserWeights \<Rightarrow> NormalizedValue \<Rightarrow> WeightedValue" where
  "weightValue factorWeights userWeights cv =
     (let totalWeight = totalWeightOf factorWeights userWeights (criterion cv);
          weightedValue' = normalizedValue cv * totalWeight
      in \<lparr>criterionId = criterionId cv, criterion = criterion cv, valueDecimal = valueDecimal cv,
          normalizedValue = normalizedValue cv, weight = totalWeight,
          weightedValue = weightedValue'\<rparr>)"

definition applyWeights :: "NormalizedValue Route list \<Rightarrow> FactorWeight list \<Rightarrow> UserWeights \<Rightarrow> WeightedValue Route list" where
  "applyWeights routes factorWeights userWeights =
     map (\<lambda>route. with_criterionValues route
            (map (weightValue factorWeights userWeights) (criterionValues route)))
         routes"


section \<open>topsis.service.ts: findIdealSolutions\<close>

text \<open>\<open>a || b\<close> on truth values.\<close>

definition bool_or :: "bool \<Rightarrow> bool \<Rightarrow> bool" where
  "bool_or a b = (if a then a else b)"

text \<open>
  For every route the pair \<open>{weightedValue, isBenefit}\<close> read for a criterion:
  \<open>cv?.weightedValue || 0\<close> and \<open>cv?.criterion.isBenefit || true\<close>.
\<close>

definition idealColumn :: "WeightedValue Route list \<Rightarrow> string \<Rightarrow> (real \<times> bool) list" where
  "idealColumn routes criterionKey =
     map (\<lambda>route. case findCriterion criterionKey (criterionValues route) of
                     Some cv \<Rightarrow> (num_or (weightedValue cv) 0, bool_or (isBenefit (criterion cv)) True)
                   | None \<Rightarrow> (0, True))
         routes"

text \<open>\<open>criterionValues[0]?.isBenefit || true\<close>\<close>

definition columnIsBenefit :: "(real \<times> bool) list \<Rightarrow> bool" where
  "columnIsBenefit col = (case col of [] \<Rightarrow> True | c # _ \<Rightarrow> bool_or (snd c) True)"

text \<open>
  \<open>Math.max\<close> and \<open>Math.min\<close> of the spread column. The column has one entry for each
  route, and a key comes from a route, so it is never empty where an ideal is computed;
  the maximum of no number is not a real number and has no entry.
\<close>

definition Math_max :: "real list \<rightharpoonup> real" where
  "Math_max vs = (case vs of [] \<Rightarrow> None | v # rest \<Rightarrow> Some (foldl max v rest))"

definition Math_min :: "real list \<rightharpoonup> real" where
  "Math_min vs = (case vs of [] \<Rightarrow> None | v # rest \<Rightarrow> Some (foldl min v rest))"

definition positiveIdeal :: "WeightedValue Route list \<Rightarrow> string \<rightharpoonup> real" where
  "positiveIdeal routes criterionKey =
     (if criterionKey \<in> set (allCriteria routes)
      then (let col = idealColumn routes criterionKey;
                weightedValues = map fst col
            in if columnIsBenefit col then Math_max weightedValues else Math_min weightedValues)
      else None)"

definition negativeIdeal :: "WeightedValue Route list \<Rightarrow> string \<rightharpoonup> real" where
  "negativeIdeal routes criterionKey =
     (if criterionKey \<in> set (allCriteria routes)
      then (let col = idealColumn routes criterionKey;
                weightedValues = map fst col
            in if columnIsBenefit col then Math_min weightedValues else Math_max weightedValues)
      else None)"


section \<open>topsis.service.ts: calculateDistances and the ranking\<close>

text \<open>
  The sum of the squared differences to an ideal, over the route's own criterion
  values. A key without an ideal makes the sum NaN, which is \<open>None\<close> here.
\<close>

definition squaredDistance :: "(string \<rightharpoonup> real) \<Rightarrow> WeightedValue list \<Rightarrow> real option" where
  "squaredDistance ideal cvs =
     foldl (\<lambda>acc cv. case acc of
                        None \<Rightarrow> None
                      | Some d \<Rightarrow>
                          (case ideal (critKey cv) of
                             None \<Rightarrow> None
                           | Some i \<Rightarrow> (let diff = weightedValue cv - i in Some (d + diff * diff))))
       (Some 0) cvs"

definition num_of :: "real option \<Rightarrow> jsnum" where
  "num_of x = (case x of None \<Rightarrow> NaN | Some v \<Rightarrow> Num v)"

text \<open>\<open>distanceToNegative / (distanceToPositive + distanceToNegative)\<close>, not guarded.\<close>

definition scoreOf :: "real option \<Rightarrow> real option \<Rightarrow> jsnum" where
  "scoreOf dPos dNeg =
     (case dPos of
        None \<Rightarrow> NaN
      | Some p \<Rightarrow> (case dNeg of None \<Rightarrow> NaN | Some n \<Rightarrow> js_div n (p + n)))"

definition scoreRoute :: "(string \<rightharpoonup> real) \<Rightarrow> (string \<rightharpoonup> real) \<Rightarrow> WeightedValue Route \<Rightarrow> WeightedValue ScoredRoute" where
  "scoreRoute posIdeal negIdeal route =
     (let distanceToPositive' = map_option sqrt (squaredDistance posIdeal (criterionValues route));
          distanceToNegative' = map_option sqrt (squaredDistance negIdeal (criterionValues route));
          topsisScore' = scoreOf distanceToPositive' distanceToNegative'
      in \<lparr>route_id = route_id route, route_name = route_name route, mountain = mountain route,
          difficulty = difficulty route, route_distance = route_distance route,
          route_duration = route_duration route, criterionValues = criterionValues route,
          distanceToPositive = num_of distanceToPositive',
          distanceToNegative = num_of distanceToNegative',
          topsisScore = topsisScore'\<rparr>)"

definition calculateDistances :: "WeightedValue Route list \<Rightarrow> (string \<rightharpoonup> real) \<Rightarrow> (string \<rightharpoonup> real) \<Rightarrow> WeightedValue ScoredRoute list" where
  "calculateDistances routes posIdeal negIdeal = map (scoreRoute posIdeal negIdeal) routes"

text \<open>
  \<open>Array.prototype.sort\<close> with a comparison function. The language turns a NaN returned
  by the comparison into 0 and fixes the result, the stable sorted order, when the
  comparison is consistent. The sort is modelled by the stable insertion sort, which
  is one such algorithm: an element moves behind the elements that the comparison
  puts strictly before it.
\<close>

definition sortsAfter :: "jsnum \<Rightarrow> bool" where
  "sortsAfter v = (case v of Num r \<Rightarrow> 0 < r | PosInf \<Rightarrow> True | NegInf \<Rightarrow> False | NaN \<Rightarrow> False)"

fun insertSorted :: "('a \<Rightarrow> 'a \<Rightarrow> jsnum) \<Rightarrow> 'a \<Rightarrow> 'a list \<Rightarrow> 'a list" where
  "insertSorted cmp x [] = [x]"
| "insertSorted cmp x (y # ys) =
     (if sortsAfter (cmp x y) then y # insertSorted cmp x ys else x # y # ys)"

definition array_sort :: "('a \<Rightarrow> 'a \<Rightarrow> jsnum) \<Rightarrow> 'a list \<Rightarrow> 'a list" where
  "array_sort cmp xs = foldr (insertSorted cmp) xs []"

text \<open>\<open>(a, b) => b.topsisScore - a.topsisScore\<close>\<close>

definition byScoreDescending :: "('c, 's) ScoredRoute_scheme \<Rightarrow> ('c, 's) ScoredRoute_scheme \<Rightarrow> jsnum" where
  "byScoreDescending a b = js_sub (topsisScore b) (topsisScore a)"

definition withRank :: "'c ScoredRoute \<Rightarrow> nat \<Rightarrow> 'c RankedRoute" where
  "withRank route index =
     \<lparr>route_id = route_id route, route_name = route_name route, mountain = mountain route,
      difficulty = difficulty route, route_distance = route_distance route,
      route_duration = route_duration route, criterionValues = criterionValues route,
      distanceToPositive = distanceToPositive route,
      distanceToNegative = distanceToNegative route,
      topsisScore = topsisScore route,
      rank = index + 1\<rparr>"

definition rankRoutes :: "'c ScoredRoute list \<Rightarrow> 'c RankedRoute list" where
  "rankRoutes routesWithScores =
     map (\<lambda>(index, route). withRank route index)
       (enumerate 0 (array_sort byScoreDescending routesWithScores))"

text \<open>
  Steps 5 to 8 of \<open>runTopsisAnalysis\<close>, from the normalised matrix on, and the whole
  analysis. The routes and the factor weights are read from the database; here they
  are arguments.
\<close>

definition scoreMatrix :: "WeightedValue Route list \<Rightarrow> WeightedValue ScoredRoute list" where
  "scoreMatrix weightedRoutes =
     calculateDistances weightedRoutes (positiveIdeal weightedRoutes) (negativeIdeal weightedRoutes)"

definition analyseMatrix :: "CriterionValue Route list \<Rightarrow> FactorWeight list \<Rightarrow> UserWeights \<Rightarrow> WeightedValue ScoredRoute list" where
  "analyseMatrix routesWithDynamicCriteria factorWeights userWeights =
     scoreMatrix (applyWeights (normalizeMatrix routesWithDynamicCriteria) factorWeights userWeights)"

definition runTopsisAnalysis :: "CriterionValue Route list \<Rightarrow> FactorWeight list \<Rightarrow> UserPreferences \<Rightarrow> WeightedValue RankedRoute list" where
  "runTopsisAnalysis routes factorWeights preferences =
     (let routesWithDynamicCriteria = addDynamicCriteria routes preferences;
          userWeights = calculateUserWeights preferences;
          routesWithScores = analyseMatrix routesWithDynamicCriteria factorWeights userWeights
      in rankRoutes routesWithScores)"


section \<open>Predicates and concrete inputs used in the statements\<close>

definition positiveWeights :: "UserWeights \<Rightarrow> bool" where
  "positiveWeights w = (0 < physicalDemand w \<and> 0 < logisticsCost w \<and> 0 < experienceQuality w)"

definition minWeight :: "UserWeights \<Rightarrow> real" where
  "minWeight w = min (min (physicalDemand w) (logisticsCost w)) (experienceQuality w)"

text \<open>A beginner on the lowest budget who is interested in scenic views.\<close>

definition budgetBeginnerScenic :: UserPreferences where
  "budgetBeginnerScenic =
     \<lparr>experience_level = ''beginner'', fitness_level = 5, budget_range = ''under_500k'',
      time_commitment = ''2_days'', location = ''jakarta'', group_size = 2,
      interests = [''scenic_views''], concerns = None\<rparr>"


text \<open>Concrete catalogue entries and matrices.\<close>

definition rawValue :: "string \<Rightarrow> string \<Rightarrow> bool \<Rightarrow> string \<Rightarrow> real \<Rightarrow> real \<Rightarrow> CriterionValue" where
  "rawValue cid n b f w v =
     \<lparr>criterionId = cid,
      criterion = \<lparr>name = n, isBenefit = b, factor_name = f, weightInFactor = w\<rparr>,
      valueDecimal = v\<rparr>"

definition routeWith :: "string \<Rightarrow> 'a list \<Rightarrow> 'a Route" where
  "routeWith n cvs =
     \<lparr>route_id = n, route_name = n,
      mountain = \<lparr>mountain_name = ''Mount Semeru'', mountain_location = ''East Java''\<rparr>,
      difficulty = ''Hard'', route_distance = 20, route_duration = 20,
      criterionValues = cvs\<rparr>"


definition lombokUser :: UserPreferences where
  "lombokUser =
     \<lparr>experience_level = ''intermediate'', fitness_level = 5, budget_range = ''1m_2m'',
      time_commitment = ''2_days'', location = ''lombok'', group_size = 2,
      interests = [], concerns = None\<rparr>"


text \<open>
  A weighted matrix of two routes with the cost criterion only: costs of 300000 and
  400000, normalised by 500000 and weighted by 0.1.
\<close>

definition weightedCost :: "real \<Rightarrow> WeightedValue" where
  "weightedCost v =
     \<lparr>criterionId = ''calculated_cost'',
      criterion = \<lparr>name = ''Total Trip Cost'', isBenefit = False,
                   factor_name = ''Logistics & Cost'', weightInFactor = 6 / 10\<rparr>,
      valueDecimal = v, normalizedValue = v / 500000, weight = 1 / 10,
      weightedValue = v / 500000 * (1 / 10)\<rparr>"

definition costMatrix :: "WeightedValue Route list" where
  "costMatrix = [routeWith ''cheap'' [weightedCost 300000], routeWith ''dear'' [weightedCost 400000]]"


text \<open>The factor weights of the seed data, and two routes that differ in their names only.\<close>

definition seedFactorWeights :: "FactorWeight list" where
  "seedFactorWeights =
     [\<lparr>fw_factor_name = ''Physical Demand'', fw_weight = 4 / 10\<rparr>,
      \<lparr>fw_factor_name = ''Logistics & Cost'', fw_weight = 3 / 10\<rparr>,
      \<lparr>fw_factor_name = ''Experience Quality'', fw_weight = 3 / 10\<rparr>]"


text \<open>
  Three routes of one mountain, of which the second has no criterion values of its own
  yet.
\<close>

definition unratedRoutes :: "CriterionValue Route list" where
  "unratedRoutes =
     [routeWith ''semeru-east'' [rawValue ''c1'' ''Scenic Value'' True ''Experience Quality'' (6 / 10) 3],
      routeWith ''semeru-new'' [],
      routeWith ''semeru-west'' [rawValue ''c1'' ''Scenic Value'' True ''Experience Quality'' (6 / 10) 4]]"

text \<open>The value of a score that is a number.\<close>

definition scoreValue :: "('c, 's) ScoredRoute_scheme \<Rightarrow> real" where
  "scoreValue r = (case topsisScore r of Num s \<Rightarrow> s | _ \<Rightarrow> 0)"

definition isNumber :: "jsnum \<Rightarrow> bool" where
  "isNumber v = (case v of Num s \<Rightarrow> True | _ \<Rightarrow> False)"



text \<open>
  The pipeline in closed form, for the analysis of the scores: the norm of a column,
  the weighted value of a criterion value, the entry of a route in a column, the two
  ideals of a column and the squared distances of a list of criterion values.
\<close>

definition colNorm :: "CriterionValue Route list \<Rightarrow> string \<Rightarrow> real" where
  "colNorm routes k = sqrt (sumOfSquares (columnValues routes k))"

definition weightedOf :: "CriterionValue Route list \<Rightarrow> FactorWeight list \<Rightarrow> UserWeights \<Rightarrow> CriterionValue \<Rightarrow> real" where
  "weightedOf routes fws uw c =
     valueDecimal c / colNorm routes (critKey c) * totalWeightOf fws uw (criterion c)"

definition entry :: "CriterionValue Route list \<Rightarrow> FactorWeight list \<Rightarrow> UserWeights \<Rightarrow> string \<Rightarrow> CriterionValue Route \<Rightarrow> real" where
  "entry routes fws uw k r =
     (case findCriterion k (criterionValues r) of
        Some c \<Rightarrow> weightedOf routes fws uw c
      | None \<Rightarrow> 0)"

definition posOf :: "CriterionValue Route list \<Rightarrow> FactorWeight list \<Rightarrow> UserWeights \<Rightarrow> string \<Rightarrow> real" where
  "posOf routes fws uw k = Max (set (map (entry routes fws uw k) routes))"

definition negOf :: "CriterionValue Route list \<Rightarrow> FactorWeight list \<Rightarrow> UserWeights \<Rightarrow> string \<Rightarrow> real" where
  "negOf routes fws uw k = Min (set (map (entry routes fws uw k) routes))"

definition posDist2 :: "CriterionValue Route list \<Rightarrow> FactorWeight list \<Rightarrow> UserWeights \<Rightarrow> CriterionValue list \<Rightarrow> real" where
  "posDist2 routes fws uw cvs =
     (\<Sum>c\<leftarrow>cvs. (weightedOf routes fws uw c - posOf routes fws uw (critKey c))\<^sup>2)"

definition negDist2 :: "CriterionValue Route list \<Rightarrow> FactorWeight list \<Rightarrow> UserWeights \<Rightarrow> CriterionValue list \<Rightarrow> real" where
  "negDist2 routes fws uw cvs =
     (\<Sum>c\<leftarrow>cvs. (weightedOf routes fws uw c - negOf routes fws uw (critKey c))\<^sup>2)"












section \<open>Properties of the distance utility\<close>

lemma haversineDistance_same: "haversineDistance c c = 0"
  by (simp add: haversineDistance_def toRadians_def Math_atan2_def)

lemma distance_unknown_name:
  "LOCATION_COORDINATES (toLowerCase k) = None \<Longrightarrow> calculateTransportDistance k m = 300"
  by (simp add: calculateTransportDistance_def)

text \<open>
  C9. For every key \<open>k\<close> of the table of locations (upper or lower case), the distance
  from \<open>k\<close> to \<open>k\<close> is 0. A name that is not in the table is not a location key: for
  it the distance is the fallback of 300 km (\<open>distance_unknown_name\<close>).
\<close>

theorem distance_same_key:
  assumes "toLowerCase k \<in> dom LOCATION_COORDINATES"
  shows "calculateTransportDistance k k = 0"
  using assms by (auto simp add: calculateTransportDistance_def haversineDistance_same)

theorem distance_same_key_witness:
  "toLowerCase ''Jakarta'' \<in> dom LOCATION_COORDINATES
   \<and> calculateTransportDistance ''Jakarta'' ''Jakarta'' = 0"
proof -
  have h: "toLowerCase ''Jakarta'' \<in> dom LOCATION_COORDINATES"
    by (simp add: toLowerCase_def lower_char_def LOCATION_COORDINATES_def)
  from distance_same_key [OF h] h show ?thesis by simp
qed


section \<open>Properties of the user weights\<close>

lemma adjustExperience_bounds:
  "2 / 10 \<le> physicalDemand (adjustExperience p initialWeights)
   \<and> 2 / 10 \<le> logisticsCost (adjustExperience p initialWeights)
   \<and> 3 / 10 \<le> experienceQuality (adjustExperience p initialWeights)"
  by (simp add: adjustExperience_def initialWeights_def)

lemma adjustExperience_total: "weightsTotal (adjustExperience p initialWeights) = 1"
  by (simp add: adjustExperience_def initialWeights_def weightsTotal_def)

lemma adjustBudget_bounds:
  "physicalDemand w - 5 / 100 \<le> physicalDemand (adjustBudget p w)
   \<and> logisticsCost w \<le> logisticsCost (adjustBudget p w)
   \<and> experienceQuality w - 5 / 100 \<le> experienceQuality (adjustBudget p w)"
  by (simp add: adjustBudget_def)

lemma adjustBudget_total: "weightsTotal (adjustBudget p w) = weightsTotal w"
  by (simp add: adjustBudget_def weightsTotal_def)

lemma adjustPhysicalChallenge_bounds:
  "physicalDemand w \<le> physicalDemand (adjustPhysicalChallenge p w)
   \<and> logisticsCost (adjustPhysicalChallenge p w) = logisticsCost w
   \<and> experienceQuality w - 1 / 10 \<le> experienceQuality (adjustPhysicalChallenge p w)"
  by (simp add: adjustPhysicalChallenge_def)

lemma adjustPhysicalChallenge_total: "weightsTotal (adjustPhysicalChallenge p w) = weightsTotal w"
  by (simp add: adjustPhysicalChallenge_def weightsTotal_def)

lemma adjustScenicViews_bounds:
  "physicalDemand w - 1 / 10 \<le> physicalDemand (adjustScenicViews p w)
   \<and> logisticsCost (adjustScenicViews p w) = logisticsCost w
   \<and> experienceQuality w \<le> experienceQuality (adjustScenicViews p w)"
  by (simp add: adjustScenicViews_def)

lemma adjustScenicViews_total: "weightsTotal (adjustScenicViews p w) = weightsTotal w"
  by (simp add: adjustScenicViews_def weightsTotal_def)

text \<open>Every adjustment moves weight between the factors: the total stays 1.\<close>

lemma weightsTotal_adjusted: "weightsTotal (adjustedWeights p) = 1"
  by (simp add: adjustedWeights_def adjustScenicViews_total adjustPhysicalChallenge_total
      adjustBudget_total adjustExperience_total)

text \<open>So the divisor of the normalisation is never 0, and the normalisation changes nothing.\<close>

lemma calculateUserWeights_adjusted: "calculateUserWeights p = adjustedWeights p"
  by (simp add: calculateUserWeights_def normalizeWeights_def weightsTotal_adjusted)

lemma adjustedWeights_bounds:
  "5 / 100 \<le> physicalDemand (adjustedWeights p)
   \<and> 2 / 10 \<le> logisticsCost (adjustedWeights p)
   \<and> 15 / 100 \<le> experienceQuality (adjustedWeights p)"
proof -
  let ?e = "adjustExperience p initialWeights"
  let ?b = "adjustBudget p ?e"
  let ?c = "adjustPhysicalChallenge p ?b"
  note e = adjustExperience_bounds [of p]
  note b = adjustBudget_bounds [of ?e p]
  note c = adjustPhysicalChallenge_bounds [of ?b p]
  note s = adjustScenicViews_bounds [of ?c p]
  show ?thesis
    unfolding adjustedWeights_def using e b c s by linarith
qed

text \<open>
  C4. For all preferences, the three weights returned by \<open>calculateUserWeights\<close> sum
  to 1 within \<open>1e-9\<close> (in exact arithmetic the sum is 1).
\<close>

theorem weights_sum_to_one:
  "\<bar>physicalDemand (calculateUserWeights p) + logisticsCost (calculateUserWeights p)
      + experienceQuality (calculateUserWeights p) - 1\<bar> \<le> 1 / 10 ^ 9"
proof -
  have "physicalDemand (adjustedWeights p) + logisticsCost (adjustedWeights p)
      + experienceQuality (adjustedWeights p) = 1"
    using weightsTotal_adjusted [of p] by (simp add: weightsTotal_def)
  then show ?thesis
    by (simp add: calculateUserWeights_adjusted)
qed

text \<open>
  C10. For all preferences, the three weights are strictly positive at the start,
  after each of the four adjustments and in the returned weights; before the
  normalisation no weight is below 0.05, and 0.05 is reached (by a beginner on the
  lowest budget who is interested in scenic views only).
\<close>

theorem weights_stay_positive:
  "positiveWeights initialWeights
   \<and> positiveWeights (adjustExperience p initialWeights)
   \<and> positiveWeights (adjustBudget p (adjustExperience p initialWeights))
   \<and> positiveWeights (adjustPhysicalChallenge p (adjustBudget p (adjustExperience p initialWeights)))
   \<and> positiveWeights (adjustedWeights p)
   \<and> positiveWeights (calculateUserWeights p)
   \<and> 5 / 100 \<le> minWeight (adjustedWeights p)
   \<and> minWeight (adjustedWeights budgetBeginnerScenic) = 5 / 100"
proof -
  let ?e = "adjustExperience p initialWeights"
  let ?b = "adjustBudget p ?e"
  let ?c = "adjustPhysicalChallenge p ?b"
  note e = adjustExperience_bounds [of p]
  note b = adjustBudget_bounds [of ?e p]
  note c = adjustPhysicalChallenge_bounds [of ?b p]
  note a = adjustedWeights_bounds [of p]
  have 0: "positiveWeights initialWeights"
    by (simp add: positiveWeights_def initialWeights_def)
  have 1: "positiveWeights ?e"
    unfolding positiveWeights_def using e by linarith
  have 2: "positiveWeights ?b"
    unfolding positiveWeights_def using e b by linarith
  have 3: "positiveWeights ?c"
    unfolding positiveWeights_def using e b c by linarith
  have 4: "positiveWeights (adjustedWeights p)"
    unfolding positiveWeights_def using a by linarith
  have 5: "5 / 100 \<le> minWeight (adjustedWeights p)"
    unfolding minWeight_def using a by linarith
  have 6: "minWeight (adjustedWeights budgetBeginnerScenic) = 5 / 100"
    by (simp add: minWeight_def adjustedWeights_def adjustScenicViews_def
        adjustPhysicalChallenge_def adjustBudget_def adjustExperience_def
        budgetBeginnerScenic_def)
  from 0 1 2 3 4 5 6 show ?thesis
    by (simp add: calculateUserWeights_adjusted)
qed

section \<open>Properties of the dynamic criteria\<close>






section \<open>Properties of the normalisation\<close>

lemma foldl_addKey_set:
  "set (foldl (\<lambda>keys cv. addKey keys (critKey cv)) keys cvs) = set keys \<union> critKey ` set cvs"
  by (induction cvs arbitrary: keys) (auto simp add: addKey_def)

lemma set_allCriteria_aux:
  "set (foldl (\<lambda>keys route. foldl (\<lambda>keys cv. addKey keys (critKey cv)) keys (criterionValues route))
          keys routes)
   = set keys \<union> (\<Union>route\<in>set routes. critKey ` set (criterionValues route))"
  by (induction routes arbitrary: keys) (auto simp add: foldl_addKey_set)

lemma set_allCriteria:
  "set (allCriteria routes) = (\<Union>route\<in>set routes. critKey ` set (criterionValues route))"
  by (simp add: allCriteria_def set_allCriteria_aux)

lemma foldl_squares: "foldl (\<lambda>sum v. sum + (v * v)) a vs = a + (\<Sum>v\<leftarrow>vs. v * v)"
  by (induction vs arbitrary: a) (simp_all add: add.assoc)

lemma sumOfSquares_sum_list: "sumOfSquares vs = (\<Sum>v\<leftarrow>vs. v * v)"
  by (simp add: sumOfSquares_def foldl_squares)

lemma findCriterion_Some:
  "findCriterion k cvs = Some cv \<Longrightarrow> cv \<in> set cvs \<and> critKey cv = k"
  unfolding findCriterion_def by (induction cvs) (auto split: if_splits)





section \<open>Properties of the ideal solutions\<close>

text \<open>
  \<open>x || true\<close> is true whatever \<open>x\<close> is, so every column is taken for a benefit column,
  and the branch for cost criteria is never taken.
\<close>

lemma columnIsBenefit_always: "columnIsBenefit col"
  by (cases col) (simp_all add: columnIsBenefit_def bool_or_def)

lemma positiveIdeal_max:
  "positiveIdeal routes k =
     (if k \<in> set (allCriteria routes) then Math_max (map fst (idealColumn routes k)) else None)"
  by (simp add: positiveIdeal_def columnIsBenefit_always)

lemma negativeIdeal_min:
  "negativeIdeal routes k =
     (if k \<in> set (allCriteria routes) then Math_min (map fst (idealColumn routes k)) else None)"
  by (simp add: negativeIdeal_def columnIsBenefit_always)

text \<open>
  C1 (the code departs from the claim). In a weighted matrix of two routes whose only
  criterion is the cost criterion, a cost criterion (\<open>isBenefit = False\<close>) with the
  weighted values 0.06 and 0.08, the positive ideal is the maximum 0.08 and the
  negative ideal is the minimum 0.06: the reverse of what holds for a cost criterion.
\<close>

theorem cost_criterion_ideal_is_max:
  "map (\<lambda>r. map (\<lambda>cv. (isBenefit (criterion cv), weightedValue cv)) (criterionValues r)) costMatrix
     = [[(False, 6 / 100)], [(False, 8 / 100)]]
   \<and> positiveIdeal costMatrix ''calculated_cost'' = Some (8 / 100)
   \<and> negativeIdeal costMatrix ''calculated_cost'' = Some (6 / 100)"
  by (simp add: costMatrix_def routeWith_def weightedCost_def positiveIdeal_max negativeIdeal_min
      allCriteria_def addKey_def critKey_def str_or_def idealColumn_def findCriterion_def
      num_or_def bool_or_def Math_max_def Math_min_def)

section \<open>Properties of the scores and of the ranking\<close>

lemma critKey_normalizeValue: "critKey (normalizeValue fs cv) = critKey cv"
  by (simp add: normalizeValue_def critKey_def Let_def)

lemma critKey_weightValue: "critKey (weightValue fws uw cv) = critKey cv"
  by (simp add: weightValue_def critKey_def Let_def)
















lemma rankRoutes_fields:
  "map route_id (rankRoutes xs) = map route_id (array_sort byScoreDescending xs)"
  "map topsisScore (rankRoutes xs) = map topsisScore (array_sort byScoreDescending xs)"
  by (simp_all add: rankRoutes_def withRank_def comp_def case_prod_unfold map_snd_enumerate
      flip: map_map [of _ snd, unfolded comp_def])

lemma rankRoutes_rank:
  "map rank (rankRoutes xs) = map Suc [0..<length (array_sort byScoreDescending xs)]"
  by (simp add: rankRoutes_def withRank_def comp_def case_prod_unfold map_fst_enumerate
      flip: map_map [of _ fst, unfolded comp_def])

lemma route_id_analyseMatrix: "map route_id (analyseMatrix routes fws uw) = map route_id routes"
  by (simp add: analyseMatrix_def scoreMatrix_def calculateDistances_def applyWeights_def
      normalizeMatrix_def scoreRoute_def with_criterionValues_def comp_def Let_def)



lemma critKey_dynamic:
  "critKey (costCriterion p r) = ''calculated_cost''"
  "critKey (accessibilityCriterion p r) = ''accessibility_score''"
  by (simp_all add: critKey_def str_or_def costCriterion_def accessibilityCriterion_def Let_def)



lemma squaredDistance_aux:
  "foldl (\<lambda>acc cv. case acc of
                      None \<Rightarrow> None
                    | Some d \<Rightarrow>
                        (case ideal (critKey cv) of
                           None \<Rightarrow> None
                         | Some i \<Rightarrow> (let diff = weightedValue cv - i in Some (d + diff * diff))))
       acc cvs = Some d \<Longrightarrow> \<exists>d0. acc = Some d0 \<and> d0 \<le> d"
proof (induction cvs arbitrary: acc)
  case Nil
  then show ?case by simp
next
  case (Cons cv cvs)
  from Cons.IH [OF Cons.prems [simplified]] show ?case
    by (auto simp add: Let_def split: option.splits intro: order_trans [rotated])
qed

lemma squaredDistance_nonneg: "squaredDistance ideal cvs = Some d \<Longrightarrow> 0 \<le> d"
  unfolding squaredDistance_def by (drule squaredDistance_aux) simp

lemma scoreOf_range:
  assumes "0 \<le> p" and "0 \<le> n"
  shows "scoreOf (Some p) (Some n) = NaN
    \<or> (\<exists>s. scoreOf (Some p) (Some n) = Num s \<and> 0 \<le> s \<and> s \<le> 1)"
proof (cases "p + n = 0")
  case True
  with assms have "n = 0" by simp
  with True show ?thesis by (simp add: scoreOf_def js_div_def)
next
  case False
  with assms have "0 < p + n" by simp
  with assms have "0 \<le> n / (p + n) \<and> n / (p + n) \<le> 1" by (simp add: divide_le_eq)
  with False show ?thesis by (simp add: scoreOf_def js_div_def)
qed

text \<open>A score is NaN or a number between 0 and 1.\<close>

lemma topsisScore_range:
  "topsisScore (scoreRoute pos neg r) = NaN
   \<or> (\<exists>s. topsisScore (scoreRoute pos neg r) = Num s \<and> 0 \<le> s \<and> s \<le> 1)"
proof (cases "squaredDistance pos (criterionValues r)")
  case None
  then show ?thesis by (simp add: scoreRoute_def scoreOf_def Let_def)
next
  case p: (Some p)
  show ?thesis
  proof (cases "squaredDistance neg (criterionValues r)")
    case None
    with p show ?thesis by (simp add: scoreRoute_def scoreOf_def Let_def)
  next
    case n: (Some n)
    have "0 \<le> sqrt p" "0 \<le> sqrt n"
      using squaredDistance_nonneg [OF p] squaredDistance_nonneg [OF n] by simp_all
    from scoreOf_range [OF this] p n show ?thesis
      by (simp add: scoreRoute_def Let_def)
  qed
qed

text \<open>The quotient of two distances is NaN exactly when both distances are 0.\<close>

lemma scoreOf_NaN_iff:
  assumes "0 \<le> p" and "0 \<le> n"
  shows "scoreOf (Some p) (Some n) = NaN \<longleftrightarrow> p = 0 \<and> n = 0"
  using assms by (auto simp add: scoreOf_def js_div_def add_nonneg_eq_0_iff)

lemma insertSorted_insort_key:
  assumes "isNumber (topsisScore x)" and "\<forall>r\<in>set ys. isNumber (topsisScore r)"
  shows "insertSorted byScoreDescending x ys = insort_key (\<lambda>r. - scoreValue r) x ys"
  using assms
proof (induction ys)
  case Nil
  then show ?case by simp
next
  case (Cons y ys)
  then show ?case
    by (cases "topsisScore x"; cases "topsisScore y")
      (auto simp add: byScoreDescending_def sortsAfter_def scoreValue_def isNumber_def)
qed

lemma array_sort_sort_key:
  assumes "\<forall>r\<in>set xs. isNumber (topsisScore r)"
  shows "array_sort byScoreDescending xs = sort_key (\<lambda>r. - scoreValue r) xs"
  using assms
proof (induction xs)
  case Nil
  then show ?case by (simp add: array_sort_def)
next
  case (Cons x xs)
  then have "array_sort byScoreDescending xs = sort_key (\<lambda>r. - scoreValue r) xs" by simp
  moreover have "\<forall>r\<in>set (sort_key (\<lambda>r. - scoreValue r) xs). isNumber (topsisScore r)"
    using Cons.prems by simp
  ultimately show ?case
    using Cons.prems by (simp add: array_sort_def insertSorted_insort_key)
qed

text \<open>
  When every score is a number, the sort puts the scores in descending order, keeps the
  routes (it permutes them) and keeps the catalogue order among routes of equal score.
\<close>

lemma array_sort_numbers:
  assumes "\<forall>r\<in>set xs. isNumber (topsisScore r)"
  shows "sorted_wrt (\<lambda>a b. js_ge (topsisScore a) (topsisScore b)) (array_sort byScoreDescending xs)"
    and "set (array_sort byScoreDescending xs) = set xs"
    and "length (array_sort byScoreDescending xs) = length xs"
    and "filter (\<lambda>r. topsisScore r = Num s) (array_sort byScoreDescending xs)
         = filter (\<lambda>r. topsisScore r = Num s) xs"
proof -
  let ?f = "\<lambda>r. - scoreValue r"
  note e = array_sort_sort_key [OF assms]
  have n: "\<forall>r\<in>set (sort_key ?f xs). isNumber (topsisScore r)"
    using assms by simp
  have "sorted (map ?f (sort_key ?f xs))" by (rule sorted_sort_key)
  then have "sorted_wrt (\<lambda>a b. ?f a \<le> ?f b) (sort_key ?f xs)"
    by (simp add: sorted_map)
  then have "sorted_wrt (\<lambda>a b. js_ge (topsisScore a) (topsisScore b)) (sort_key ?f xs)"
  proof (rule sorted_wrt_mono_rel [rotated])
    fix a b
    assume "a \<in> set (sort_key ?f xs)" and "b \<in> set (sort_key ?f xs)" and "?f a \<le> ?f b"
    with n show "js_ge (topsisScore a) (topsisScore b)"
      by (cases "topsisScore a"; cases "topsisScore b")
        (auto simp add: isNumber_def scoreValue_def)
  qed
  then show "sorted_wrt (\<lambda>a b. js_ge (topsisScore a) (topsisScore b)) (array_sort byScoreDescending xs)"
    by (simp add: e)
  show "set (array_sort byScoreDescending xs) = set xs"
    by (simp add: e)
  show "length (array_sort byScoreDescending xs) = length xs"
    by (simp add: e)
  have "(topsisScore r = Num s) = (?f r = - s)" if "isNumber (topsisScore r)" for r
    using that by (auto simp add: isNumber_def scoreValue_def split: jsnum.splits)
  then have "filter (\<lambda>r. topsisScore r = Num s) ys = filter (\<lambda>r. ?f r = - s) ys"
    if "\<forall>r\<in>set ys. isNumber (topsisScore r)" for ys
    using that by (auto intro: filter_cong)
  moreover have "filter (\<lambda>r. ?f r = - s) (sort_key ?f xs) = filter (\<lambda>r. ?f r = - s) xs"
    by (rule sort_key_stable)
  ultimately have "filter (\<lambda>r. topsisScore r = Num s) (sort_key ?f xs)
      = filter (\<lambda>r. topsisScore r = Num s) xs"
    using n assms by metis
  then show "filter (\<lambda>r. topsisScore r = Num s) (array_sort byScoreDescending xs)
         = filter (\<lambda>r. topsisScore r = Num s) xs"
    by (simp add: e)
qed

text \<open>Two routes with the same criterion values have the same score.\<close>

lemma equal_values_equal_score:
  assumes "i < length routes" and "j < length routes"
    and "criterionValues (routes ! i) = criterionValues (routes ! j)"
  shows "topsisScore (analyseMatrix routes fws uw ! i) = topsisScore (analyseMatrix routes fws uw ! j)"
  using assms
  by (simp add: analyseMatrix_def scoreMatrix_def calculateDistances_def applyWeights_def
      normalizeMatrix_def scoreRoute_def with_criterionValues_def Let_def)

section \<open>Monotonicity of the score in one raw value\<close>



lemma sumOfSquares_nonneg: "0 \<le> sumOfSquares vs"
  unfolding sumOfSquares_sum_list by (induction vs) simp_all

lemma colNorm_nonneg: "0 \<le> colNorm routes k"
  by (simp add: colNorm_def sumOfSquares_nonneg)

lemma normalizationFactors_colNorm:
  "k \<in> set (allCriteria routes) \<Longrightarrow> normalizationFactors routes k = Some (colNorm routes k)"
  by (simp add: normalizationFactors_def colNorm_def)

lemma weightedValue_closed:
  assumes "r \<in> set routes" and "c \<in> set (criterionValues r)"
  shows "weightedValue (weightValue fws uw (normalizeValue (normalizationFactors routes) c))
    = weightedOf routes fws uw c"
proof -
  have "critKey c \<in> set (allCriteria routes)"
    using assms by (auto simp add: set_allCriteria)
  then have f: "normalizationFactors routes (critKey c) = Some (colNorm routes (critKey c))"
    by (rule normalizationFactors_colNorm)
  show ?thesis
    using colNorm_nonneg [of routes "critKey c"]
    by (cases "colNorm routes (critKey c) = 0")
      (simp_all add: weightValue_def normalizeValue_def Let_def f weightedOf_def)
qed

lemma findCriterion_map:
  assumes "\<And>c. critKey (f c) = critKey c"
  shows "findCriterion k (map f cvs) = map_option f (findCriterion k cvs)"
  unfolding findCriterion_def by (induction cvs) (simp_all add: assms)

lemma criterionValues_weighted:
  "i < length routes \<Longrightarrow>
   criterionValues (applyWeights (normalizeMatrix routes) fws uw ! i)
     = map (\<lambda>c. weightValue fws uw (normalizeValue (normalizationFactors routes) c))
         (criterionValues (routes ! i))"
  by (simp add: applyWeights_def normalizeMatrix_def with_criterionValues_def)

lemma set_allCriteria_weighted:
  "set (allCriteria (applyWeights (normalizeMatrix routes) fws uw)) = set (allCriteria routes)"
  by (simp add: set_allCriteria applyWeights_def normalizeMatrix_def with_criterionValues_def
      image_image critKey_weightValue critKey_normalizeValue)

lemma idealColumn_closed:
  "map fst (idealColumn (applyWeights (normalizeMatrix routes) fws uw) k)
     = map (entry routes fws uw k) routes"
proof -
  let ?f = "\<lambda>c. weightValue fws uw (normalizeValue (normalizationFactors routes) c)"
  have k: "critKey (?f c) = critKey c" for c
    by (simp add: critKey_weightValue critKey_normalizeValue)
  have "fst (case findCriterion k (map ?f (criterionValues r)) of
               Some cv \<Rightarrow> (num_or (weightedValue cv) 0, bool_or (isBenefit (criterion cv)) True)
             | None \<Rightarrow> (0, True))
        = entry routes fws uw k r" if "r \<in> set routes" for r
  proof (cases "findCriterion k (criterionValues r)")
    case None
    then show ?thesis by (simp add: findCriterion_map [of ?f, OF k] entry_def)
  next
    case (Some c)
    then have "c \<in> set (criterionValues r)" by (auto dest: findCriterion_Some)
    from weightedValue_closed [OF that this] Some show ?thesis
      by (simp add: findCriterion_map [of ?f, OF k] entry_def num_or_def)
  qed
  then show ?thesis
    by (simp add: idealColumn_def applyWeights_def normalizeMatrix_def with_criterionValues_def
        comp_def cong: map_cong)
qed

lemma foldl_max_Max: "foldl max (v::real) rest = Max (set (v # rest))"
proof -
  have "foldl max v rest = fold max rest v"
    by (simp add: foldl_conv_fold max.commute)
  with Max.set_eq_fold [of v rest] show ?thesis by simp
qed

lemma foldl_min_Min: "foldl min (v::real) rest = Min (set (v # rest))"
proof -
  have "foldl min v rest = fold min rest v"
    by (simp add: foldl_conv_fold min.commute)
  with Min.set_eq_fold [of v rest] show ?thesis by simp
qed

lemma Math_max_Max: "vs \<noteq> [] \<Longrightarrow> Math_max vs = Some (Max (set vs))"
  by (cases vs) (simp_all add: Math_max_def foldl_max_Max del: set_simps)

lemma Math_min_Min: "vs \<noteq> [] \<Longrightarrow> Math_min vs = Some (Min (set vs))"
  by (cases vs) (simp_all add: Math_min_def foldl_min_Min del: set_simps)

lemma ideals_closed:
  assumes "r \<in> set routes" and "c \<in> set (criterionValues r)"
  shows "positiveIdeal (applyWeights (normalizeMatrix routes) fws uw) (critKey c)
           = Some (posOf routes fws uw (critKey c))"
    and "negativeIdeal (applyWeights (normalizeMatrix routes) fws uw) (critKey c)
           = Some (negOf routes fws uw (critKey c))"
proof -
  have k: "critKey c \<in> set (allCriteria routes)"
    using assms by (auto simp add: set_allCriteria)
  have n: "map (entry routes fws uw (critKey c)) routes \<noteq> []"
    using assms(1) by auto
  show "positiveIdeal (applyWeights (normalizeMatrix routes) fws uw) (critKey c)
           = Some (posOf routes fws uw (critKey c))"
    using k by (simp add: positiveIdeal_max set_allCriteria_weighted idealColumn_closed
        Math_max_Max [OF n] posOf_def del: set_map)
  show "negativeIdeal (applyWeights (normalizeMatrix routes) fws uw) (critKey c)
           = Some (negOf routes fws uw (critKey c))"
    using k by (simp add: negativeIdeal_min set_allCriteria_weighted idealColumn_closed
        Math_min_Min [OF n] negOf_def del: set_map)
qed

lemma squaredDistance_closed_aux:
  "\<forall>c\<in>set cvs. ideal (critKey c) = Some (g c) \<Longrightarrow>
   foldl (\<lambda>acc cv. case acc of
                      None \<Rightarrow> None
                    | Some d \<Rightarrow>
                        (case ideal (critKey cv) of
                           None \<Rightarrow> None
                         | Some i \<Rightarrow> (let diff = weightedValue cv - i in Some (d + diff * diff))))
       (Some d0) cvs = Some (d0 + (\<Sum>c\<leftarrow>cvs. (weightedValue c - g c)\<^sup>2))"
  by (induction cvs arbitrary: d0) (simp_all add: Let_def power2_eq_square add.assoc)

lemma squaredDistance_closed:
  "\<forall>c\<in>set cvs. ideal (critKey c) = Some (g c) \<Longrightarrow>
   squaredDistance ideal cvs = Some (\<Sum>c\<leftarrow>cvs. (weightedValue c - g c)\<^sup>2)"
  unfolding squaredDistance_def using squaredDistance_closed_aux [of cvs ideal g 0] by simp

lemma score_closed:
  assumes "i < length routes"
  shows "topsisScore (analyseMatrix routes fws uw ! i)
    = js_div (sqrt (negDist2 routes fws uw (criterionValues (routes ! i))))
        (sqrt (posDist2 routes fws uw (criterionValues (routes ! i)))
          + sqrt (negDist2 routes fws uw (criterionValues (routes ! i))))"
proof -
  let ?W = "applyWeights (normalizeMatrix routes) fws uw"
  let ?f = "\<lambda>c. weightValue fws uw (normalizeValue (normalizationFactors routes) c)"
  let ?cvs = "criterionValues (routes ! i)"
  have r: "routes ! i \<in> set routes" using assms by simp
  have l: "i < length ?W" using assms by (simp add: applyWeights_def normalizeMatrix_def)
  have c: "criterionValues (?W ! i) = map ?f ?cvs"
    using assms by (rule criterionValues_weighted)
  have k: "critKey (?f c) = critKey c" for c
    by (simp add: critKey_weightValue critKey_normalizeValue)
  have p: "squaredDistance (positiveIdeal ?W) (map ?f ?cvs)
      = Some (\<Sum>c\<leftarrow>map ?f ?cvs. (weightedValue c - posOf routes fws uw (critKey c))\<^sup>2)"
    by (rule squaredDistance_closed) (auto simp add: k ideals_closed [OF r])
  have n: "squaredDistance (negativeIdeal ?W) (map ?f ?cvs)
      = Some (\<Sum>c\<leftarrow>map ?f ?cvs. (weightedValue c - negOf routes fws uw (critKey c))\<^sup>2)"
    by (rule squaredDistance_closed) (auto simp add: k ideals_closed [OF r])
  have p': "(\<Sum>c\<leftarrow>map ?f ?cvs. (weightedValue c - posOf routes fws uw (critKey c))\<^sup>2)
      = posDist2 routes fws uw ?cvs"
    unfolding posDist2_def map_map comp_def k
    by (rule arg_cong [where f = sum_list], rule map_cong) (simp_all add: weightedValue_closed [OF r])
  have n': "(\<Sum>c\<leftarrow>map ?f ?cvs. (weightedValue c - negOf routes fws uw (critKey c))\<^sup>2)
      = negDist2 routes fws uw ?cvs"
    unfolding negDist2_def map_map comp_def k
    by (rule arg_cong [where f = sum_list], rule map_cong) (simp_all add: weightedValue_closed [OF r])
  have "topsisScore (analyseMatrix routes fws uw ! i)
      = topsisScore (scoreRoute (positiveIdeal ?W) (negativeIdeal ?W) (?W ! i))"
    using l by (simp add: analyseMatrix_def scoreMatrix_def calculateDistances_def)
  also have "\<dots> = scoreOf (map_option sqrt (squaredDistance (positiveIdeal ?W) (map ?f ?cvs)))
      (map_option sqrt (squaredDistance (negativeIdeal ?W) (map ?f ?cvs)))"
    by (simp add: scoreRoute_def Let_def c)
  also have "\<dots> = scoreOf (Some (sqrt (posDist2 routes fws uw ?cvs)))
      (Some (sqrt (negDist2 routes fws uw ?cvs)))"
    by (simp only: p n p' n' option.map)
  finally show ?thesis
    by (simp add: scoreOf_def)
qed
































lemma set_insertSorted: "set (insertSorted cmp x ys) = insert x (set ys)"
  by (induction ys) auto

lemma length_insertSorted: "length (insertSorted cmp x ys) = Suc (length ys)"
  by (induction ys) auto

text \<open>Whatever the comparison returns, the sort keeps the routes and their number.\<close>

lemma array_sort_permutes: "set (array_sort cmp xs) = set xs" "length (array_sort cmp xs) = length xs"
  unfolding array_sort_def by (induction xs) (simp_all add: set_insertSorted length_insertSorted)

text \<open>The scores of the ranking are the scores of the matrix of the augmented routes.\<close>

lemma map_snd_enumerate_under: "map (\<lambda>x. g (snd x)) (enumerate n ys) = map g ys"
  by (induction ys arbitrary: n) simp_all

lemma scores_of_ranking:
  "set (map (\<lambda>r. (route_id r, topsisScore r)) (runTopsisAnalysis routes fws p))
   = set (map (\<lambda>r. (route_id r, topsisScore r))
        (analyseMatrix (addDynamicCriteria routes p) fws (calculateUserWeights p)))"
proof -
  have "map (\<lambda>r. (route_id r, topsisScore r)) (rankRoutes xs)
      = map (\<lambda>r. (route_id r, topsisScore r)) (array_sort byScoreDescending xs)"
    for xs :: "WeightedValue ScoredRoute list"
    using map_snd_enumerate_under [of "\<lambda>r. (route_id r, topsisScore r)" 0
        "array_sort byScoreDescending xs"]
    by (simp add: rankRoutes_def withRank_def comp_def case_prod_unfold)
  then show ?thesis
    by (simp add: runTopsisAnalysis_def Let_def array_sort_permutes del: set_map)
      (simp add: array_sort_permutes)
qed

subsection \<open>The ranking around a score that is NaN\<close>

lemma list_of_three: "length xs = 3 \<Longrightarrow> xs = [xs ! 0, xs ! Suc 0, xs ! 2]"
  by (auto simp add: numeral_3_eq_3 length_Suc_conv)

lemma array_sort_NaN_between:
  assumes "topsisScore x = Num a" and "topsisScore y = NaN" and "topsisScore z = Num b"
  shows "array_sort byScoreDescending [x, y, z] = [x, y, z]"
  using assms by (simp add: array_sort_def byScoreDescending_def sortsAfter_def)

text \<open>
  A route whose score is NaN stops the sort: every comparison with it returns NaN,
  which counts as 0, and no route moves past it. In the catalogue of three routes of
  which the second has no criterion values of its own, the scores are 3/4, NaN and 1,
  and the ranking is the catalogue order: the route with the score 1 gets rank 3.
\<close>

lemma unrated_route_keeps_its_place:
  "map (\<lambda>r. (route_id r, topsisScore r, rank r))
     (runTopsisAnalysis unratedRoutes seedFactorWeights lombokUser)
   = [(''semeru-east'', Num (3 / 4), 1), (''semeru-new'', NaN, 2), (''semeru-west'', Num 1, 3)]"
proof -
  define c0 where "c0 = costCriterion lombokUser (routeWith [] [] :: CriterionValue Route)"
  define a0 where "a0 = accessibilityCriterion lombokUser (routeWith [] [] :: CriterionValue Route)"
  define s3 where "s3 = rawValue ''c1'' ''Scenic Value'' True ''Experience Quality'' (6 / 10) 3"
  define s4 where "s4 = rawValue ''c1'' ''Scenic Value'' True ''Experience Quality'' (6 / 10) 4"
  define D where "D = [routeWith ''semeru-east'' [s3, c0, a0], routeWith ''semeru-new'' [c0, a0],
      routeWith ''semeru-west'' [s4, c0, a0]]"
  have d: "addDynamicCriteria unratedRoutes lombokUser = D"
    by (simp add: addDynamicCriteria_def unratedRoutes_def with_criterionValues_def routeWith_def
        c0_def a0_def s3_def s4_def D_def costCriterion_def accessibilityCriterion_def
        costInput_def mountainKey_def)
  have k: "critKey s3 = ''c1''" "critKey s4 = ''c1''" "critKey c0 = ''calculated_cost''"
    "critKey a0 = ''accessibility_score''"
    by (simp_all add: critKey_dynamic c0_def a0_def)
      (simp_all add: s3_def s4_def rawValue_def critKey_def str_or_def)
  have v: "valueDecimal s3 = 3" "valueDecimal s4 = 4" "criterion s4 = criterion s3"
    by (simp_all add: s3_def s4_def rawValue_def)
  have u: "calculateUserWeights lombokUser = initialWeights"
    by (simp add: calculateUserWeights_adjusted adjustedWeights_def adjustScenicViews_def
        adjustPhysicalChallenge_def adjustBudget_def adjustExperience_def lombokUser_def)
  have cv: "criterionValues (D ! 0) = [s3, c0, a0]" "criterionValues (D ! Suc 0) = [c0, a0]"
    "criterionValues (D ! 2) = [s4, c0, a0]"
    "map criterionValues D = [[s3, c0, a0], [c0, a0], [s4, c0, a0]]"
    by (simp_all add: D_def routeWith_def)
  have s: "sqrt 25 = 5"
    by (rule real_sqrt_unique) simp_all
  have n: "colNorm D ''c1'' = 5"
    by (simp add: colNorm_def columnValues_def sumOfSquares_def findCriterion_def k v s
        D_def routeWith_def)
  have t: "totalWeightOf seedFactorWeights initialWeights (criterion s3) = 153 / 2500"
    by (simp add: totalWeightOf_def seedFactorWeights_def weightOf_def initialWeights_def
        num_or_def s3_def rawValue_def)
  have e: "map (entry D seedFactorWeights initialWeights ''c1'') D = [459 / 12500, 0, 153 / 3125]"
    "map (entry D seedFactorWeights initialWeights ''calculated_cost'') D
       = replicate 3 (weightedOf D seedFactorWeights initialWeights c0)"
    "map (entry D seedFactorWeights initialWeights ''accessibility_score'') D
       = replicate 3 (weightedOf D seedFactorWeights initialWeights a0)"
    by (simp_all add: entry_def findCriterion_def k D_def [unfolded routeWith_def] routeWith_def
          numeral_3_eq_3)
       (simp_all add: weightedOf_def k v t n [unfolded D_def routeWith_def])
  have m: "posOf D seedFactorWeights initialWeights ''c1'' = 153 / 3125"
    "negOf D seedFactorWeights initialWeights ''c1'' = 0"
    "posOf D seedFactorWeights initialWeights ''calculated_cost''
       = weightedOf D seedFactorWeights initialWeights c0"
    "negOf D seedFactorWeights initialWeights ''calculated_cost''
       = weightedOf D seedFactorWeights initialWeights c0"
    "posOf D seedFactorWeights initialWeights ''accessibility_score''
       = weightedOf D seedFactorWeights initialWeights a0"
    "negOf D seedFactorWeights initialWeights ''accessibility_score''
       = weightedOf D seedFactorWeights initialWeights a0"
    by (simp_all add: posOf_def negOf_def e)
  have w: "weightedOf D seedFactorWeights initialWeights s3 = 459 / 12500"
    "weightedOf D seedFactorWeights initialWeights s4 = 153 / 3125"
    by (simp_all add: weightedOf_def k v t n)
  have p: "posDist2 D seedFactorWeights initialWeights [s3, c0, a0] = (153 / 12500)\<^sup>2"
    "negDist2 D seedFactorWeights initialWeights [s3, c0, a0] = (459 / 12500)\<^sup>2"
    "posDist2 D seedFactorWeights initialWeights [c0, a0] = 0"
    "negDist2 D seedFactorWeights initialWeights [c0, a0] = 0"
    "posDist2 D seedFactorWeights initialWeights [s4, c0, a0] = 0"
    "negDist2 D seedFactorWeights initialWeights [s4, c0, a0] = (153 / 3125)\<^sup>2"
    by (simp_all add: posDist2_def negDist2_def k m w power2_eq_square)
  let ?s = "analyseMatrix D seedFactorWeights initialWeights"
  have l: "length D = 3" by (simp add: D_def)
  have 0: "topsisScore (?s ! 0) = Num (3 / 4)"
    by (subst score_closed) (simp_all add: l cv p js_div_def)
  have 1: "topsisScore (?s ! Suc 0) = NaN"
    by (subst score_closed) (simp_all add: l cv p js_div_def)
  have 2: "topsisScore (?s ! 2) = Num 1"
    by (subst score_closed) (simp_all add: l cv p js_div_def)
  have i: "map route_id ?s = [''semeru-east'', ''semeru-new'', ''semeru-west'']"
    by (simp add: route_id_analyseMatrix) (simp add: D_def routeWith_def)
  then have "length ?s = 3"
    by (metis length_map l i route_id_analyseMatrix)
  then have x: "?s = [?s ! 0, ?s ! Suc 0, ?s ! 2]"
    by (rule list_of_three)
  have a: "array_sort byScoreDescending ?s = ?s"
    by (subst (1 2) x) (rule array_sort_NaN_between [OF 0 1 2])
  have c: "map topsisScore ?s = [Num (3 / 4), NaN, Num 1]"
    by (subst x) (simp add: 0 1 2)
  have "map (\<lambda>r. (route_id r, topsisScore r, rank r)) xs
      = zip (map route_id xs) (zip (map topsisScore xs) (map rank xs))" for xs :: "WeightedValue RankedRoute list"
    by (induction xs) simp_all
  then show ?thesis
    by (simp add: runTopsisAnalysis_def Let_def d u rankRoutes_fields rankRoutes_rank a i c
        \<open>length ?s = 3\<close> upt_rec)
qed

section \<open>Properties of the cost estimate\<close>




















end
